theory Spec2Isabelle
  imports Complex_Main "HOL-Library.Multiset"
begin

section \<open>Numeric cells and errors\<close>

text \<open>
  A cell of a pandas column or a Python float: a finite number, one of the two
  infinities, or NaN. Finite floats are idealised as reals (no rounding).
\<close>

datatype fval = Num real | PInf | NInf | NaN

text \<open>The exceptions the modelled code can raise.\<close>

datatype error = IndexError | ValueError

text \<open>
  Float arithmetic on cells: NaN propagates, the infinities absorb finite numbers, and
  the undefined forms (\<open>inf - inf\<close>, \<open>0 * inf\<close>, \<open>0 / 0\<close>, \<open>inf / inf\<close>) are NaN, as in
  numpy. Signed zeros are not distinguished.
\<close>

fun fval_add :: "fval \<Rightarrow> fval \<Rightarrow> fval" where
  "fval_add NaN _ = NaN"
| "fval_add _ NaN = NaN"
| "fval_add (Num x) (Num y) = Num (x + y)"
| "fval_add PInf NInf = NaN"
| "fval_add NInf PInf = NaN"
| "fval_add PInf _ = PInf"
| "fval_add _ PInf = PInf"
| "fval_add NInf _ = NInf"
| "fval_add _ NInf = NInf"

fun fval_mul :: "fval \<Rightarrow> fval \<Rightarrow> fval" where
  "fval_mul NaN _ = NaN"
| "fval_mul _ NaN = NaN"
| "fval_mul (Num x) (Num y) = Num (x * y)"
| "fval_mul (Num x) PInf = (if x > 0 then PInf else if x < 0 then NInf else NaN)"
| "fval_mul (Num x) NInf = (if x > 0 then NInf else if x < 0 then PInf else NaN)"
| "fval_mul PInf (Num y) = (if y > 0 then PInf else if y < 0 then NInf else NaN)"
| "fval_mul NInf (Num y) = (if y > 0 then NInf else if y < 0 then PInf else NaN)"
| "fval_mul PInf PInf = PInf"
| "fval_mul NInf NInf = PInf"
| "fval_mul PInf NInf = NInf"
| "fval_mul NInf PInf = NInf"

fun fval_div :: "fval \<Rightarrow> fval \<Rightarrow> fval" where
  "fval_div NaN _ = NaN"
| "fval_div _ NaN = NaN"
| "fval_div (Num x) (Num y) =
     (if y \<noteq> 0 then Num (x / y)
      else if x > 0 then PInf else if x < 0 then NInf else NaN)"
| "fval_div (Num x) _ = Num 0"
| "fval_div PInf (Num y) = (if y \<ge> 0 then PInf else NInf)"
| "fval_div NInf (Num y) = (if y \<ge> 0 then NInf else PInf)"
| "fval_div _ _ = NaN"

fun fval_neg :: "fval \<Rightarrow> fval" where
  "fval_neg (Num x) = Num (- x)"
| "fval_neg PInf = NInf"
| "fval_neg NInf = PInf"
| "fval_neg NaN = NaN"

definition fval_sub :: "fval \<Rightarrow> fval \<Rightarrow> fval" where
  "fval_sub a b = fval_add a (fval_neg b)"

text \<open>\<open>fillna(0)\<close> on one cell.\<close>

fun fillna0 :: "fval \<Rightarrow> fval" where
  "fillna0 NaN = Num 0"
| "fillna0 v = v"

section \<open>scorer.py: WalletScorer\<close>

subsection \<open>Library operations used by the calibrator\<close>

text \<open>
  \<open>np.percentile(a, q)\<close> with the default linear interpolation, at one integer
  percentile \<open>q\<close> of the sorted data \<open>s\<close>: the virtual index is
  \<open>(n - 1) * q / 100\<close>, its integer part is the lower neighbour, its fractional
  part the interpolation weight, and the upper neighbour is capped at \<open>n - 1\<close>.
  Integer division and remainder give the floor and the fraction exactly.
\<close>

definition percentile_at :: "real list \<Rightarrow> nat \<Rightarrow> real" where
  "percentile_at s q =
     (let n = length s;
          k = (n - 1) * q;
          lo = k div 100;
          hi = min (lo + 1) (n - 1);
          g = real (k mod 100) / 100
      in s ! lo + (s ! hi - s ! lo) * g)"

text \<open>
  \<open>np.percentile\<close> over a list of percentiles. On an empty array numpy raises
  (IndexError: index -1 is out of bounds for axis 0 with size 0).

  The breakpoints are the exact ones. numpy computes the virtual index
  \<open>(n - 1) * (q / 100)\<close> and the interpolation in double precision, so one of its
  breakpoints can lie one unit in the last place off the exact value: for the
  population 0, 1, ..., 50 the breakpoint at 58 is 29 here and 28.999999999999996 in
  numpy, which moves the rank of the raw score 29 from 58 to 59. What is stated below about
  \<open>np_percentile\<close> itself holds in both arithmetics (the number of breakpoints, their
  order, the constant population, the empty population); the rank theorem is stated for
  any sorted list of 101 breakpoints.
\<close>

definition np_percentile :: "real list \<Rightarrow> nat list \<Rightarrow> error + real list" where
  "np_percentile a qs =
     (if a = [] then Inl IndexError else Inr (map (percentile_at (sort a)) qs))"

text \<open>
  \<open>np.searchsorted(a, v)\<close> with the default \<open>side='left'\<close> on a sorted array: the
  leftmost insertion index, that is the number of leading elements smaller than \<open>v\<close>.
\<close>

definition searchsorted :: "real list \<Rightarrow> real \<Rightarrow> nat" where
  "searchsorted a v = length (takeWhile (\<lambda>x. x < v) a)"

text \<open>\<open>np.clip(x, lo, hi)\<close> is \<open>minimum(maximum(x, lo), hi)\<close>.\<close>

definition clip :: "real \<Rightarrow> real \<Rightarrow> real \<Rightarrow> real" where
  "clip x lo hi = min (max x lo) hi"

text \<open>\<open>np.clip\<close> on a cell: NaN stays NaN, an infinity is cut to the bound.\<close>

fun np_clip :: "fval \<Rightarrow> real \<Rightarrow> real \<Rightarrow> fval" where
  "np_clip (Num x) lo hi = Num (clip x lo hi)"
| "np_clip PInf lo hi = Num hi"
| "np_clip NInf lo hi = Num lo"
| "np_clip NaN lo hi = NaN"

subsection \<open>\<open>_calibrate_scores\<close>\<close>

text \<open>
  The loop over the accounts and the final clip, for the breakpoints computed before
  the loop.
\<close>

definition calibrate_with :: "real list \<Rightarrow> real list \<Rightarrow> real list" where
  "calibrate_with percentiles raw_scores =
     map (\<lambda>calibrated_score. clip calibrated_score 0 1000)
       (map (\<lambda>score.
               let percentile_rank = real (searchsorted percentiles score) / 100
               in 1000 * percentile_rank)
         raw_scores)"

definition calibrate_scores :: "real list \<Rightarrow> error + real list" where
  "calibrate_scores raw_scores =
     (case np_percentile raw_scores [0..<101] of
        Inl e \<Rightarrow> Inl e
      | Inr percentiles \<Rightarrow> Inr (calibrate_with percentiles raw_scores))"

subsection \<open>\<open>_assign_risk_category\<close>\<close>

definition assign_risk_category :: "real \<Rightarrow> string" where
  "assign_risk_category score =
     (if score \<ge> 900 then ''Excellent''
      else if score \<ge> 800 then ''Very Good''
      else if score \<ge> 700 then ''Good''
      else if score \<ge> 600 then ''Fair''
      else if score \<ge> 500 then ''Poor''
      else if score \<ge> 400 then ''Very Poor''
      else ''Unacceptable'')"

section \<open>model_trainer.py: ModelTrainer\<close>

text \<open>
  A Feature Record is the wallet address with the dict of numeric features. A
  features DataFrame is built from the list of these dicts: a column exists when some
  dict has the key, and a dict without the key gives a NaN cell.
\<close>

type_synonym feature_record = "string \<times> (string \<rightharpoonup> fval)"

type_synonym features_df = "feature_record list"

definition has_column :: "features_df \<Rightarrow> string \<Rightarrow> bool" where
  "has_column df k = list_ex (\<lambda>r. snd r k \<noteq> None) df"

definition column :: "features_df \<Rightarrow> string \<Rightarrow> fval list" where
  "column df k = map (\<lambda>r. case snd r k of None \<Rightarrow> NaN | Some v \<Rightarrow> v) df"

subsection \<open>\<open>_create_synthetic_targets\<close>\<close>

definition positive_factors :: "(string \<times> real \<times> real) list" where
  "positive_factors =
     [(''repayment_ratio'', 200, 1),
      (''asset_diversity_score'', 100, 1),
      (''account_age_days'', 150, 365),
      (''transaction_complexity'', 50, 1 / 2)]"

definition negative_factors :: "(string \<times> real \<times> real) list" where
  "negative_factors =
     [(''liquidation_ratio'', - 300, 1 / 10),
      (''leverage_ratio'', - 200, 10),
      (''time_regularity_score'', - 100, 5),
      (''amount_uniformity_score'', - 150, 4 / 5)]"

text \<open>
  One pass of either factor loop: for every factor whose column exists, the column
  with NaN filled by 0 is divided by the factor's divisor, clipped to [0, 1], weighted
  and added to the running scores.
\<close>

fun apply_factors ::
  "features_df \<Rightarrow> (string \<times> real \<times> real) list \<Rightarrow> fval list \<Rightarrow> fval list" where
  "apply_factors df [] scores = scores"
| "apply_factors df ((factor, max_points, max_value) # fs) scores =
     apply_factors df fs
       (if has_column df factor then
          (let values = map fillna0 (column df factor);
               normalized = map (\<lambda>v. np_clip (fval_div v (Num max_value)) 0 1) values
           in map2 fval_add scores (map (\<lambda>x. fval_mul x (Num max_points)) normalized))
        else scores)"

text \<open>The scores after both factor loops, before the noise is added.\<close>

definition factor_scores :: "features_df \<Rightarrow> fval list" where
  "factor_scores df =
     apply_factors df negative_factors
       (apply_factors df positive_factors (replicate (length df) (Num 500)))"

text \<open>
  The random draw \<open>np.random.normal(0, 25, len(scores))\<close> is an input: \<open>noise i\<close> is the
  finite value drawn for row \<open>i\<close>. No statement of the function raises, on any
  frame, so the result is always \<open>Inr\<close>.
\<close>

definition create_synthetic_targets :: "features_df \<Rightarrow> (nat \<Rightarrow> real) \<Rightarrow> error + fval list" where
  "create_synthetic_targets df noise =
     (let scores = factor_scores df;
          scores = map2 fval_add scores (map (\<lambda>i. Num (noise i)) [0..<length scores])
      in Inr (map (\<lambda>s. np_clip s 0 1000) scores))"

section \<open>feature_engineer.py: FeatureEngineer\<close>

subsection \<open>Transactions\<close>

text \<open>
  One row of the processed transaction frame. The timestamp is a timezone-naive
  pandas timestamp, the count of nanoseconds since the epoch; \<open>hour\<close> is the derived
  column of that name; \<open>asset\<close> and \<open>gas_used\<close> are optional columns, and a cell of
  a present column may still be missing (\<open>None\<close>). Amounts are finite numbers.
\<close>

record event =
  wallet_address :: string
  action :: string
  amount :: real
  timestamp :: int
  hour :: nat
  asset :: "string option"
  gas_used :: "real option"

text \<open>
  A transaction frame: which optional columns it has, the categories of the asset
  column when that column is categorical (the processor casts it to a category; the
  list is empty for a plain column), and the rows. A slice of a frame keeps the
  columns and the categories.
\<close>

record tx_df =
  asset_column :: bool
  asset_categories :: "string list"
  gas_used_column :: bool
  rows :: "event list"

subsection \<open>pandas operations on a column\<close>

text \<open>\<open>unique()\<close>: the distinct values in order of first appearance.\<close>

definition unique :: "'a list \<Rightarrow> 'a list" where
  "unique xs = rev (remdups (rev xs))"

definition nunique :: "'a list \<Rightarrow> nat" where
  "nunique xs = length (remdups xs)"

text \<open>
  \<open>value_counts()\<close>: every distinct value with its number of occurrences, the largest
  count first; values with equal counts are kept in order of first appearance.
\<close>

definition value_counts :: "'a list \<Rightarrow> ('a \<times> nat) list" where
  "value_counts xs =
     sort_key (\<lambda>(k, c). - int c) (map (\<lambda>k. (k, count_list xs k)) (unique xs))"

text \<open>
  \<open>value_counts()\<close> on a column that may be categorical: a categorical column lists
  every category, also one that does not occur, with count 0. For a plain column the
  list of categories is empty and this is \<open>value_counts\<close>.
\<close>

definition value_counts_categorical :: "'a list \<Rightarrow> 'a list \<Rightarrow> ('a \<times> nat) list" where
  "value_counts_categorical categories xs =
     sort_key (\<lambda>(k, c). - int c)
       (map (\<lambda>k. (k, count_list xs k)) (unique (xs @ categories)))"

text \<open>\<open>groupby(key).size()\<close>: the group sizes, in the order of the sorted keys.\<close>

definition groupby_size :: "'a::linorder list \<Rightarrow> nat list" where
  "groupby_size keys = map (count_list keys) (sort (remdups keys))"

text \<open>
  Reductions of a numeric column without missing cells. The mean, median, minimum and
  maximum of an empty column are NaN; the sum is 0. Variance and standard deviation
  are the sample statistics (one delta degree of freedom), which are NaN for fewer
  than two values.
\<close>

definition series_mean :: "real list \<Rightarrow> fval" where
  "series_mean xs = (if xs = [] then NaN else Num (sum_list xs / real (length xs)))"

definition series_median :: "real list \<Rightarrow> fval" where
  "series_median xs =
     (if xs = [] then NaN
      else let s = sort xs; n = length s
           in if odd n then Num (s ! (n div 2))
              else Num ((s ! (n div 2 - 1) + s ! (n div 2)) / 2))"

definition series_var :: "real list \<Rightarrow> fval" where
  "series_var xs =
     (if length xs < 2 then NaN
      else let m = sum_list xs / real (length xs)
           in Num (sum_list (map (\<lambda>x. (x - m)\<^sup>2) xs) / real (length xs - 1)))"

definition series_std :: "real list \<Rightarrow> fval" where
  "series_std xs = (case series_var xs of Num v \<Rightarrow> Num (sqrt v) | _ \<Rightarrow> NaN)"

definition series_min :: "real list \<Rightarrow> fval" where
  "series_min xs = (if xs = [] then NaN else Num (Min (set xs)))"

definition series_max :: "real list \<Rightarrow> fval" where
  "series_max xs = (if xs = [] then NaN else Num (Max (set xs)))"

text \<open>The float comparison \<open>v > 0\<close>: false for NaN.\<close>

fun fval_gt0 :: "fval \<Rightarrow> bool" where
  "fval_gt0 (Num x) = (x > 0)"
| "fval_gt0 PInf = True"
| "fval_gt0 _ = False"

subsection \<open>Time\<close>

definition ns_per_day :: int where
  "ns_per_day = 86400000000000"

text \<open>\<open>.dt.date\<close>, as the day number since the epoch, and \<open>Timedelta.days\<close>.\<close>

definition date_of :: "int \<Rightarrow> int" where
  "date_of t = t div ns_per_day"

definition timedelta_days :: "int \<Rightarrow> int" where
  "timedelta_days d = d div ns_per_day"

text \<open>
  The proleptic Gregorian calendar on day numbers: the civil date (year, month, day)
  of a day number, and the day number of a civil date.
\<close>

definition civil_from_days :: "int \<Rightarrow> int \<times> int \<times> int" where
  "civil_from_days z0 =
     (let z = z0 + 719468;
          era = z div 146097;
          doe = z - era * 146097;
          yoe = (doe - doe div 1460 + doe div 36524 - doe div 146096) div 365;
          y = yoe + era * 400;
          doy = doe - (365 * yoe + yoe div 4 - yoe div 100);
          mp = (5 * doy + 2) div 153;
          d = doy - (153 * mp + 2) div 5 + 1;
          m = (if mp < 10 then mp + 3 else mp - 9)
      in (if m \<le> 2 then y + 1 else y, m, d))"

definition days_from_civil :: "int \<Rightarrow> int \<Rightarrow> int \<Rightarrow> int" where
  "days_from_civil y0 m d =
     (let y = (if m \<le> 2 then y0 - 1 else y0);
          era = y div 400;
          yoe = y - era * 400;
          doy = (153 * (if m > 2 then m - 3 else m + 9) + 2) div 5 + d - 1;
          doe = yoe * 365 + yoe div 4 - yoe div 100 + doy
      in era * 146097 + doe - 719468)"

text \<open>\<open>.dt.month\<close> and \<open>.dt.isocalendar().week\<close>.\<close>

definition month_of :: "int \<Rightarrow> int" where
  "month_of t = (case civil_from_days (date_of t) of (y, m, d) \<Rightarrow> m)"

definition iso_week :: "int \<Rightarrow> int" where
  "iso_week t =
     (let days = date_of t;
          weekday = (days + 3) mod 7;
          thursday = days - weekday + 3;
          iso_year = (case civil_from_days thursday of (y, m, d) \<Rightarrow> y)
      in (thursday - days_from_civil iso_year 1 1) div 7 + 1)"

text \<open>
  \<open>sort_values('timestamp')['timestamp'].diff().dt.total_seconds()\<close> without its leading
  missing cell: the gaps between successive timestamps, in seconds.
\<close>

definition diff_total_seconds :: "event list \<Rightarrow> real list" where
  "diff_total_seconds rs =
     (let ts = sort (map timestamp rs)
      in map (\<lambda>(a, b). real_of_int (b - a) / 1000000000) (zip ts (tl ts)))"

subsection \<open>\<open>_basic_transaction_features\<close>\<close>

text \<open>
  Each feature group is the list of the dict entries it writes, in the order it
  writes them.
\<close>

definition action_names :: "string list" where
  "action_names = [''deposit'', ''borrow'', ''repay'', ''redeemunderlying'', ''liquidationcall'']"

definition basic_transaction_features :: "tx_df \<Rightarrow> (string \<times> fval) list" where
  "basic_transaction_features data =
     (let total_actions = length (rows data);
          amounts = map amount (rows data)
      in [(''total_transactions'', Num (real (length (rows data)))),
          (''unique_days_active'',
             Num (real (nunique (map (\<lambda>e. date_of (timestamp e)) (rows data)))))]
         @ concat (map (\<lambda>a.
              let count = count_list (map action (rows data)) a
              in [(a @ ''_count'', Num (real count)),
                  (a @ ''_ratio'',
                     if total_actions > 0 then Num (real count / real total_actions)
                     else Num 0)])
            action_names)
         @ [(''total_amount'', Num (sum_list amounts)),
            (''avg_amount'', series_mean amounts),
            (''median_amount'', series_median amounts),
            (''std_amount'', series_std amounts),
            (''min_amount'', series_min amounts),
            (''max_amount'', series_max amounts),
            (''amount_cv'',
               if fval_gt0 (series_mean amounts)
               then fval_div (series_std amounts) (series_mean amounts) else Num 0)])"

subsection \<open>\<open>_behavioral_pattern_features\<close>\<close>

definition behavioral_pattern_features :: "tx_df \<Rightarrow> (string \<times> fval) list" where
  "behavioral_pattern_features data =
     (let time_diffs = diff_total_seconds (rows data);
          daily_counts =
            map real (groupby_size (map (\<lambda>e. date_of (timestamp e)) (rows data)));
          hourly_activity = value_counts (map hour (rows data))
      in (if length (rows data) > 1
          then [(''avg_time_between_transactions'', series_mean time_diffs),
                (''std_time_between_transactions'', series_std time_diffs),
                (''min_time_between_transactions'', series_min time_diffs),
                (''max_time_between_transactions'', series_max time_diffs)]
          else [(''avg_time_between_transactions'', Num 0),
                (''std_time_between_transactions'', Num 0),
                (''min_time_between_transactions'', Num 0),
                (''max_time_between_transactions'', Num 0)])
         @ [(''activity_consistency'',
               fval_div (Num 1) (fval_add (series_std daily_counts) (Num 1))),
            (''max_daily_transactions'',
               if daily_counts \<noteq> [] then series_max daily_counts else Num 0),
            (''avg_daily_transactions'',
               if daily_counts \<noteq> [] then series_mean daily_counts else Num 0),
            (''activity_hours_spread'', Num (real (length hourly_activity))),
            (''most_active_hour'',
               case hourly_activity of [] \<Rightarrow> Num 0 | (h, c) # _ \<Rightarrow> Num (real h))])"

subsection \<open>\<open>_risk_assessment_features\<close>\<close>

definition risk_assessment_features :: "tx_df \<Rightarrow> (string \<times> fval) list" where
  "risk_assessment_features data =
     (let liquidations = filter (\<lambda>e. action e = ''liquidationcall'') (rows data);
          borrows = filter (\<lambda>e. action e = ''borrow'') (rows data);
          repays = filter (\<lambda>e. action e = ''repay'') (rows data);
          total_borrowed = (if borrows \<noteq> [] then sum_list (map amount borrows) else 0);
          total_repaid = (if repays \<noteq> [] then sum_list (map amount repays) else 0);
          deposits = filter (\<lambda>e. action e = ''deposit'') (rows data);
          total_deposited = (if deposits \<noteq> [] then sum_list (map amount deposits) else 0)
      in [(''liquidation_count'', Num (real (length liquidations))),
          (''liquidation_ratio'',
             if length (rows data) > 0
             then Num (real (length liquidations) / real (length (rows data))) else Num 0),
          (''days_since_last_liquidation'',
             if liquidations \<noteq> []
             then Num (real_of_int (timedelta_days
                    (Max (set (map timestamp (rows data)))
                     - Max (set (map timestamp liquidations)))))
             else Num 9999),
          (''total_borrowed'', Num total_borrowed),
          (''total_repaid'', Num total_repaid),
          (''repayment_ratio'',
             if total_borrowed > 0 then Num (total_repaid / total_borrowed) else Num 1),
          (''outstanding_debt'', Num (max 0 (total_borrowed - total_repaid))),
          (''leverage_ratio'',
             if total_deposited > 0 then Num (total_borrowed / total_deposited) else Num 0),
          (''deposit_to_borrow_ratio'',
             if total_borrowed > 0 then Num (total_deposited / total_borrowed) else PInf)])"

subsection \<open>\<open>_portfolio_management_features\<close>\<close>

text \<open>
  The counts of a categorical asset column include the categories that the wallet
  never used, so they are empty only when the frame has no asset at all; the largest
  count of a wallet without assets is then 0, and the division by the number of rows is
  a float division (NaN for 0 / 0 on a frame without rows).
\<close>

definition portfolio_management_features :: "tx_df \<Rightarrow> (string \<times> fval) list" where
  "portfolio_management_features data =
     (let deposits = filter (\<lambda>e. action e = ''deposit'') (rows data);
          withdrawals = filter (\<lambda>e. action e = ''redeemunderlying'') (rows data)
      in (if asset_column data
          then (let assets = List.map_filter asset (rows data);
                    unique_assets = nunique assets;
                    asset_counts = value_counts_categorical (asset_categories data) assets
                in [(''unique_assets'', Num (real unique_assets)),
                    (''asset_concentration'',
                       case asset_counts of [] \<Rightarrow> Num 0
                       | (a, c) # _ \<Rightarrow>
                           fval_div (Num (real c)) (Num (real (length (rows data))))),
                    (''asset_diversity_score'',
                       case asset_counts of [] \<Rightarrow> Num 0
                       | (a, c) # _ \<Rightarrow>
                           fval_sub (Num 1)
                             (fval_div (Num (real c)) (Num (real (length (rows data))))))])
          else [(''unique_assets'', Num 1),
                (''asset_concentration'', Num 1),
                (''asset_diversity_score'', Num 0)])
         @ [(''position_changes'', Num (real (length deposits + length withdrawals))),
            (''deposit_withdrawal_ratio'',
               if length withdrawals > 0
               then Num (real (length deposits) / real (length withdrawals)) else PInf)])"

subsection \<open>\<open>_temporal_features\<close>\<close>

text \<open>
  \<open>datetime.now()\<close> is read from the wall clock; the reading is the argument \<open>now\<close>.
  On a frame without rows the first and last timestamps are missing and the features
  computed from them are NaN.
\<close>

definition temporal_features :: "int \<Rightarrow> tx_df \<Rightarrow> (string \<times> fval) list" where
  "temporal_features now data =
     (let first_tx = Min (set (map timestamp (rows data)));
          last_tx = Max (set (map timestamp (rows data)));
          account_age_days =
            (if rows data = [] then NaN
             else Num (real_of_int (timedelta_days (last_tx - first_tx) + 1)));
          weekly_activity = groupby_size (map (\<lambda>e. iso_week (timestamp e)) (rows data));
          monthly_activity = groupby_size (map (\<lambda>e. month_of (timestamp e)) (rows data))
      in [(''account_age_days'', account_age_days),
          (''transactions_per_day'',
             if fval_gt0 account_age_days
             then fval_div (Num (real (length (rows data)))) account_age_days else Num 0),
          (''days_since_last_activity'',
             if rows data = [] then NaN
             else Num (real_of_int (timedelta_days (now - last_tx)))),
          (''weekly_activity_variance'',
             if length weekly_activity > 1 then series_var (map real weekly_activity)
             else Num 0),
          (''monthly_activity_variance'',
             if length monthly_activity > 1 then series_var (map real monthly_activity)
             else Num 0)])"

subsection \<open>\<open>_bot_detection_features\<close>\<close>

text \<open>
  The regularity of a list of gaps: \<open>cv_time\<close> is the standard deviation over the
  mean when the mean is positive and 0 otherwise; the score is \<open>1 / (cv_time + 0.01)\<close>.
\<close>

definition time_regularity :: "real list \<Rightarrow> fval" where
  "time_regularity time_diffs =
     (let cv_time = (if fval_gt0 (series_mean time_diffs)
                     then fval_div (series_std time_diffs) (series_mean time_diffs) else Num 0)
      in fval_div (Num 1) (fval_add cv_time (Num (1 / 100))))"

definition bot_detection_features :: "tx_df \<Rightarrow> (string \<times> fval) list" where
  "bot_detection_features data =
     (if length (rows data) > 2
      then (let time_diffs = diff_total_seconds (rows data)
            in if length time_diffs > 0
               then [(''time_regularity_score'', time_regularity time_diffs),
                     (''most_common_interval_ratio'',
                        case value_counts time_diffs of [] \<Rightarrow> Num 0
                        | (d, c) # _ \<Rightarrow> Num (real c / real (length time_diffs)))]
               else [(''time_regularity_score'', Num 0),
                     (''most_common_interval_ratio'', Num 0)])
      else [(''time_regularity_score'', Num 0),
            (''most_common_interval_ratio'', Num 0)])
     @ [(''amount_uniformity_score'',
           case value_counts (map amount (rows data)) of [] \<Rightarrow> Num 0
           | (a, c) # _ \<Rightarrow> Num (real c / real (length (rows data)))),
        (''gas_optimization_score'',
           if gas_used_column data
           then (case value_counts (List.map_filter gas_used (rows data)) of [] \<Rightarrow> Num 0
                 | (g, c) # _ \<Rightarrow> Num (real c / real (length (rows data))))
           else Num 0),
        (''transaction_complexity'',
           if length (rows data) > 0
           then Num (real (nunique (map action (rows data))) / real (length (rows data)))
           else Num 0)]"

subsection \<open>\<open>_extract_wallet_features\<close> and \<open>engineer_features\<close>\<close>

text \<open>\<open>features.update(items)\<close>: a later entry for a key replaces an earlier one.\<close>

definition dict_update :: "(string \<rightharpoonup> fval) \<Rightarrow> (string \<times> fval) list \<Rightarrow> (string \<rightharpoonup> fval)" where
  "dict_update features items = features ++ map_of (rev items)"

definition extract_wallet_features :: "int \<Rightarrow> tx_df \<Rightarrow> (string \<rightharpoonup> fval)" where
  "extract_wallet_features now wallet_data =
     (let features = Map.empty;
          features = dict_update features (basic_transaction_features wallet_data);
          features = dict_update features (behavioral_pattern_features wallet_data);
          features = dict_update features (risk_assessment_features wallet_data);
          features = dict_update features (portfolio_management_features wallet_data);
          features = dict_update features (temporal_features now wallet_data);
          features = dict_update features (bot_detection_features wallet_data)
      in features)"

text \<open>
  One Feature Record per distinct wallet address, in order of first appearance.
  \<open>clock i\<close> is the wall clock reading during the extraction of the \<open>i\<close>-th wallet.
\<close>

definition engineer_features :: "(nat \<Rightarrow> int) \<Rightarrow> tx_df \<Rightarrow> features_df" where
  "engineer_features clock df =
     map (\<lambda>(i, wallet).
            let wallet_data = df\<lparr>rows := filter (\<lambda>e. wallet_address e = wallet) (rows df)\<rparr>
            in (wallet, extract_wallet_features (clock i) wallet_data))
       (enumerate 0 (unique (map wallet_address (rows df))))"

section \<open>scorer.py: \<open>score_wallets\<close>\<close>

text \<open>
  \<open>predict\<close> stands for the saved preprocessing followed by the model's \<open>predict\<close>:
  the Learner, an external capability that maps the feature rows (without the wallet
  address) to raw scores. A Score Record is the wallet address, the credit score and
  the risk category. Building the result frame from an address column and a score
  array of another length raises. The result is sorted by descending score.

  pandas sorts with an unstable quicksort, so the order in which accounts with equal
  scores come out is not determined by the scores; here they keep their input order.
  Nothing below depends on the order of the result. On a frame without rows a Learner
  that returns no score lets the percentile computation raise; a real Learner may
  raise before that.
\<close>

definition score_wallets ::
  "((string \<rightharpoonup> fval) list \<Rightarrow> real list) \<Rightarrow> features_df \<Rightarrow> error + (string \<times> real \<times> string) list" where
  "score_wallets predict features_df =
     (let wallet_addresses = map fst features_df;
          X = map snd features_df;
          raw_scores = predict X
      in case calibrate_scores raw_scores of
           Inl e \<Rightarrow> Inl e
         | Inr calibrated_scores \<Rightarrow>
             if length calibrated_scores \<noteq> length wallet_addresses then Inl ValueError
             else Inr (sort_key (\<lambda>(w, credit_score, c). - credit_score)
                        (map (\<lambda>(w, credit_score). (w, credit_score, assign_risk_category credit_score))
                          (zip wallet_addresses calibrated_scores))))"

section \<open>Auxiliary and specification-side definitions\<close>

text \<open>
  The specification's label, account by account. The share of a factor is its feature
  value divided by the divisor and clipped to [0, 1]; a missing or NaN value counts as
  0, an infinite one is cut by the clip. The score before the noise starts at the
  baseline 500 and adds, for every factor, the factor's point swing times its share.
\<close>

definition spec_unit_share :: "fval option \<Rightarrow> real \<Rightarrow> real" where
  "spec_unit_share cell divisor =
     (case cell of Some (Num x) \<Rightarrow> clip (x / divisor) 0 1 | Some PInf \<Rightarrow> 1 | _ \<Rightarrow> 0)"

definition spec_factor_score :: "(string \<rightharpoonup> fval) \<Rightarrow> real" where
  "spec_factor_score row =
     500
     + 200 * spec_unit_share (row ''repayment_ratio'') 1
     + 100 * spec_unit_share (row ''asset_diversity_score'') 1
     + 150 * spec_unit_share (row ''account_age_days'') 365
     + 50 * spec_unit_share (row ''transaction_complexity'') (1 / 2)
     - 300 * spec_unit_share (row ''liquidation_ratio'') (1 / 10)
     - 200 * spec_unit_share (row ''leverage_ratio'') 10
     - 100 * spec_unit_share (row ''time_regularity_score'') 5
     - 150 * spec_unit_share (row ''amount_uniformity_score'') (4 / 5)"

text \<open>
  The specification's regularity score on real numbers: the coefficient of variation
  of the gaps is their sample standard deviation over their mean, 0 when the mean is
  0, and the score is 1 / (coefficient of variation + 0.01).
\<close>

definition spec_coefficient_of_variation :: "real list \<Rightarrow> real" where
  "spec_coefficient_of_variation xs =
     (let m = sum_list xs / real (length xs);
          sd = sqrt (sum_list (map (\<lambda>x. (x - m)\<^sup>2) xs) / real (length xs - 1))
      in if m = 0 then 0 else sd / m)"

definition spec_regularity_score :: "real list \<Rightarrow> real" where
  "spec_regularity_score gaps = 1 / (spec_coefficient_of_variation gaps + 1 / 100)"

text \<open>The keys the six feature groups write, in the order they are written.\<close>

definition feature_keys :: "string list" where
  "feature_keys =
     [''total_transactions'', ''unique_days_active'',
      ''deposit_count'', ''deposit_ratio'', ''borrow_count'', ''borrow_ratio'',
      ''repay_count'', ''repay_ratio'', ''redeemunderlying_count'', ''redeemunderlying_ratio'',
      ''liquidationcall_count'', ''liquidationcall_ratio'',
      ''total_amount'', ''avg_amount'', ''median_amount'', ''std_amount'',
      ''min_amount'', ''max_amount'', ''amount_cv'',
      ''avg_time_between_transactions'', ''std_time_between_transactions'',
      ''min_time_between_transactions'', ''max_time_between_transactions'',
      ''activity_consistency'', ''max_daily_transactions'', ''avg_daily_transactions'',
      ''activity_hours_spread'', ''most_active_hour'',
      ''liquidation_count'', ''liquidation_ratio'', ''days_since_last_liquidation'',
      ''total_borrowed'', ''total_repaid'', ''repayment_ratio'', ''outstanding_debt'',
      ''leverage_ratio'', ''deposit_to_borrow_ratio'',
      ''unique_assets'', ''asset_concentration'', ''asset_diversity_score'',
      ''position_changes'', ''deposit_withdrawal_ratio'',
      ''account_age_days'', ''transactions_per_day'', ''days_since_last_activity'',
      ''weekly_activity_variance'', ''monthly_activity_variance'',
      ''time_regularity_score'', ''most_common_interval_ratio'',
      ''amount_uniformity_score'', ''gas_optimization_score'', ''transaction_complexity'']"

section \<open>Example inputs\<close>

text \<open>The breakpoints 0, 1, ..., 100: those of the population 0, 1, ..., 100.\<close>

text \<open>
  Two example rows: a wallet with perfect repayment, and one whose leverage is infinite
  and whose age is missing. The example noise is 30 for every row.
\<close>

definition example_features_df :: features_df where
  "example_features_df =
     [(''0xa'', [''repayment_ratio'' \<mapsto> Num 1, ''account_age_days'' \<mapsto> Num 73]),
      (''0xb'', [''repayment_ratio'' \<mapsto> Num 0, ''leverage_ratio'' \<mapsto> PInf,
                ''account_age_days'' \<mapsto> NaN])]"

definition example_noise :: "nat \<Rightarrow> real" where
  "example_noise i = 30"

text \<open>A noise draw that is 0 for every row.\<close>

definition zero_noise :: "nat \<Rightarrow> real" where
  "zero_noise i = 0"

text \<open>
  Transaction frames of one wallet, without the optional columns: a deposit and a
  repayment one hour later; a single deposit; a deposit and a borrow one day apart;
  and a deposit, a borrow and a repayment at one-day intervals.
\<close>

definition example_deposit_repay :: tx_df where
  "example_deposit_repay =
     \<lparr>asset_column = False, asset_categories = [], gas_used_column = False,
      rows = [\<lparr>wallet_address = ''0xa'', action = ''deposit'', amount = 1000,
                timestamp = 0, hour = 0, asset = None, gas_used = None\<rparr>,
              \<lparr>wallet_address = ''0xa'', action = ''repay'', amount = 50,
                timestamp = 3600000000000, hour = 1, asset = None, gas_used = None\<rparr>]\<rparr>"

definition example_single_event :: tx_df where
  "example_single_event =
     \<lparr>asset_column = False, asset_categories = [], gas_used_column = False,
      rows = [\<lparr>wallet_address = ''0xa'', action = ''deposit'', amount = 1000,
                timestamp = 0, hour = 0, asset = None, gas_used = None\<rparr>]\<rparr>"

definition example_two_events :: tx_df where
  "example_two_events =
     \<lparr>asset_column = False, asset_categories = [], gas_used_column = False,
      rows = [\<lparr>wallet_address = ''0xa'', action = ''deposit'', amount = 1000,
                timestamp = 0, hour = 0, asset = None, gas_used = None\<rparr>,
              \<lparr>wallet_address = ''0xa'', action = ''borrow'', amount = 500,
                timestamp = 86400000000000, hour = 0, asset = None, gas_used = None\<rparr>]\<rparr>"

definition example_three_events :: tx_df where
  "example_three_events =
     \<lparr>asset_column = False, asset_categories = [], gas_used_column = False,
      rows = [\<lparr>wallet_address = ''0xa'', action = ''deposit'', amount = 1000,
                timestamp = 0, hour = 0, asset = None, gas_used = None\<rparr>,
              \<lparr>wallet_address = ''0xa'', action = ''borrow'', amount = 500,
                timestamp = 86400000000000, hour = 0, asset = None, gas_used = None\<rparr>,
              \<lparr>wallet_address = ''0xa'', action = ''repay'', amount = 500,
                timestamp = 172800000000000, hour = 0, asset = None, gas_used = None\<rparr>]\<rparr>"

text \<open>
  A Learner that returns the repayment ratio of each row as its raw score, and a
  clock that reads the instant of the last example event at every call.
\<close>

definition example_predict :: "(string \<rightharpoonup> fval) list \<Rightarrow> real list" where
  "example_predict X =
     map (\<lambda>row. case row ''repayment_ratio'' of Some (Num r) \<Rightarrow> r | _ \<Rightarrow> 0) X"

definition example_clock :: "nat \<Rightarrow> int" where
  "example_clock i = 172800000000000"

section \<open>Risk tiers\<close>

text \<open>
  C5. The risk tier is a function of the calibrated score given by the threshold
  ladder with inclusive lower bounds: Excellent from 900, Very Good from 800, Good from
  700, Fair from 600, Poor from 500, Very Poor from 400, Unacceptable below. Each tier
  is exactly one interval, so the tiers partition the score range without gap or
  overlap; 950, 850, 750, 650, 550, 450 and 100 fall into the seven tiers in order.
\<close>

theorem assign_risk_category_ladder:
  "(assign_risk_category s = ''Excellent'') = (900 \<le> s) \<and>
   (assign_risk_category s = ''Very Good'') = (800 \<le> s \<and> s < 900) \<and>
   (assign_risk_category s = ''Good'') = (700 \<le> s \<and> s < 800) \<and>
   (assign_risk_category s = ''Fair'') = (600 \<le> s \<and> s < 700) \<and>
   (assign_risk_category s = ''Poor'') = (500 \<le> s \<and> s < 600) \<and>
   (assign_risk_category s = ''Very Poor'') = (400 \<le> s \<and> s < 500) \<and>
   (assign_risk_category s = ''Unacceptable'') = (s < 400) \<and>
   assign_risk_category s \<in> set [''Excellent'', ''Very Good'', ''Good'', ''Fair'',
                                 ''Poor'', ''Very Poor'', ''Unacceptable''] \<and>
   assign_risk_category 950 = ''Excellent'' \<and>
   assign_risk_category 850 = ''Very Good'' \<and>
   assign_risk_category 750 = ''Good'' \<and>
   assign_risk_category 650 = ''Fair'' \<and>
   assign_risk_category 550 = ''Poor'' \<and>
   assign_risk_category 450 = ''Very Poor'' \<and>
   assign_risk_category 100 = ''Unacceptable''"
  by (simp add: assign_risk_category_def)

section \<open>The calibrator\<close>

subsection \<open>The percentile breakpoints are sorted\<close>

lemma percentile_at_0: "percentile_at s 0 = s ! 0"
  by (simp add: percentile_at_def)

lemma percentile_at_100: "percentile_at s 100 = s ! (length s - 1)"
  by (simp add: percentile_at_def Let_def)

lemma scaled_index_le:
  fixes m q :: nat
  assumes "q \<le> 100"
  shows "m * q div 100 \<le> m"
proof -
  have "m * q \<le> m * 100" using assms by simp
  then have "m * q div 100 \<le> m * 100 div 100" by (rule div_le_mono)
  then show ?thesis by simp
qed

lemma percentile_at_between:
  assumes "sorted s" "s \<noteq> []" "q \<le> 100"
  shows "s ! ((length s - 1) * q div 100) \<le> percentile_at s q"
    and "percentile_at s q \<le> s ! min ((length s - 1) * q div 100 + 1) (length s - 1)"
proof -
  let ?n = "length s" let ?k = "(?n - 1) * q" let ?lo = "?k div 100"
  let ?hi = "min (?lo + 1) (?n - 1)" let ?g = "real (?k mod 100) / 100"
  have n0: "0 < ?n" using assms(2) by simp
  have hi: "?hi < ?n" using n0 by arith
  have lohi: "?lo \<le> ?hi"
    using scaled_index_le[OF assms(3), of "?n - 1"] by simp
  have d: "0 \<le> s ! ?hi - s ! ?lo"
    using sorted_nth_mono[OF assms(1) lohi hi] by simp
  have g0: "0 \<le> ?g" by simp
  have g1: "?g \<le> 1" by simp
  have eq: "percentile_at s q = s ! ?lo + (s ! ?hi - s ! ?lo) * ?g"
    by (simp add: percentile_at_def Let_def)
  show "s ! ?lo \<le> percentile_at s q"
    unfolding eq using d g0 by simp
  have "(s ! ?hi - s ! ?lo) * ?g \<le> (s ! ?hi - s ! ?lo) * 1"
    using d g1 by (rule mult_left_mono[rotated])
  then show "percentile_at s q \<le> s ! ?hi"
    unfolding eq by simp
qed

lemma percentile_at_mono:
  assumes "sorted s" "s \<noteq> []" "q \<le> q'" "q' \<le> 100"
  shows "percentile_at s q \<le> percentile_at s q'"
proof -
  let ?n = "length s"
  let ?k = "(?n - 1) * q" let ?lo = "?k div 100"
  let ?hi = "min (?lo + 1) (?n - 1)" let ?g = "real (?k mod 100) / 100"
  let ?k' = "(?n - 1) * q'" let ?lo' = "?k' div 100"
  let ?hi' = "min (?lo' + 1) (?n - 1)" let ?g' = "real (?k' mod 100) / 100"
  have kk: "?k \<le> ?k'" using assms(3) by simp
  then have lolo: "?lo \<le> ?lo'" by (rule div_le_mono)
  have n0: "0 < ?n" using assms(2) by simp
  have lo'n: "?lo' \<le> ?n - 1"
    by (rule scaled_index_le[OF assms(4)])
  have lo'lt: "?lo' < ?n" using lo'n n0 by arith
  show ?thesis
  proof (cases "?lo = ?lo'")
    case True
    have "?k mod 100 \<le> ?k' mod 100"
    proof -
      have "?k = ?lo * 100 + ?k mod 100" by simp
      moreover have "?k' = ?lo * 100 + ?k' mod 100" using True by simp
      ultimately show ?thesis using kk by linarith
    qed
    then have gg: "?g \<le> ?g'" by (simp add: divide_right_mono)
    have hi: "?hi < ?n" using n0 by arith
    have lohi: "?lo \<le> ?hi" using lo'n True by simp
    have d: "0 \<le> s ! ?hi - s ! ?lo"
      using sorted_nth_mono[OF assms(1) lohi hi] by simp
    have "(s ! ?hi - s ! ?lo) * ?g \<le> (s ! ?hi - s ! ?lo) * ?g'"
      using gg d by (rule mult_left_mono)
    then show ?thesis using True by (simp add: percentile_at_def Let_def)
  next
    case False
    then have lt: "?lo + 1 \<le> ?lo'" using lolo by simp
    have q100: "q \<le> 100" using assms(3,4) by simp
    have a: "percentile_at s q \<le> s ! ?hi"
      by (rule percentile_at_between(2)[OF assms(1,2) q100])
    have "?hi \<le> ?lo + 1" by (rule min.cobounded1)
    then have "?hi \<le> ?lo'" using lt by (rule order_trans)
    then have b: "s ! ?hi \<le> s ! ?lo'"
      using sorted_nth_mono[OF assms(1) _ lo'lt] by blast
    have c: "s ! ?lo' \<le> percentile_at s q'"
      by (rule percentile_at_between(1)[OF assms(1,2,4)])
    from a b c show ?thesis by linarith
  qed
qed

lemma sorted_percentiles:
  assumes "sorted s" "s \<noteq> []"
  shows "sorted (map (percentile_at s) [0..<101])"
proof -
  have "\<And>i j. i \<le> j \<Longrightarrow> j < 101 \<Longrightarrow> percentile_at s i \<le> percentile_at s j"
    using percentile_at_mono[OF assms] by simp
  then show ?thesis
    by (simp add: sorted_iff_nth_mono del: upt_Suc)
qed

lemma searchsorted_le:
  assumes "i < length ps" "v \<le> ps ! i"
  shows "searchsorted ps v \<le> i"
proof (rule ccontr)
  assume "\<not> searchsorted ps v \<le> i"
  then have "i < length (takeWhile (\<lambda>x. x < v) ps)" by (simp add: searchsorted_def)
  then have "takeWhile (\<lambda>x. x < v) ps ! i \<in> set (takeWhile (\<lambda>x. x < v) ps)"
    and "takeWhile (\<lambda>x. x < v) ps ! i = ps ! i"
    by (rule nth_mem, rule takeWhile_nth)
  then have "ps ! i < v" by (metis set_takeWhileD)
  with assms(2) show False by simp
qed

subsection \<open>Range of the calibrated scores\<close>

lemma calibrate_scores_nonempty:
  assumes "raw_scores \<noteq> []"
  shows "calibrate_scores raw_scores =
    Inr (map (\<lambda>score. clip (1000 * (real (searchsorted
            (map (percentile_at (sort raw_scores)) [0..<101]) score) / 100)) 0 1000)
          raw_scores)"
  using assms by (simp add: calibrate_scores_def calibrate_with_def np_percentile_def Let_def comp_def)

lemma clip_range: "lo \<le> hi \<Longrightarrow> lo \<le> clip x lo hi \<and> clip x lo hi \<le> hi"
  by (simp add: clip_def)

lemma population_rank_le_100:
  assumes "x \<in> set raw_scores"
  shows "searchsorted (map (percentile_at (sort raw_scores)) [0..<101]) x \<le> 100"
proof -
  let ?s = "sort raw_scores"
  have ne: "?s \<noteq> []" using assms by (metis empty_iff empty_set set_sort)
  have "x \<in> set ?s" using assms by simp
  then obtain j where j: "j < length ?s" "?s ! j = x" by (metis in_set_conv_nth)
  have "j \<le> length ?s - 1" using j(1) by simp
  moreover have "length ?s - 1 < length ?s" using j(1) by arith
  ultimately have "?s ! j \<le> ?s ! (length ?s - 1)"
    by (intro sorted_nth_mono) simp_all
  then have "x \<le> percentile_at ?s 100" by (simp add: percentile_at_100 j(2))
  moreover have "map (percentile_at ?s) [0..<101] ! 100 = percentile_at ?s 100"
    by (simp del: upt_Suc)
  ultimately show ?thesis by (intro searchsorted_le) (simp_all del: upt_Suc)
qed

subsection \<open>The rank of an account\<close>












definition example_percentiles :: "real list" where
  "example_percentiles = map real [0..<101]"





lemma calibrate_with_example:
  "calibrate_with example_percentiles [0, 37, 100] = [0, 370, 1000]"
  by code_simp

text \<open>
  In exact arithmetic the breakpoints of a non-empty population are 101 sorted
  values, and the calibrator applies the loop to them.
\<close>

lemma calibrate_scores_breakpoints:
  assumes "raw_scores \<noteq> []"
  shows "\<exists>percentiles. np_percentile raw_scores [0..<101] = Inr percentiles \<and>
           length percentiles = 101 \<and> sorted percentiles \<and>
           calibrate_scores raw_scores = Inr (calibrate_with percentiles raw_scores)"
proof -
  let ?ps = "map (percentile_at (sort raw_scores)) [0..<101]"
  have ne: "sort raw_scores \<noteq> []" using assms by (metis length_0_conv length_sort)
  have p: "np_percentile raw_scores [0..<101] = Inr ?ps"
    using assms by (simp add: np_percentile_def)
  have l: "length ?ps = 101" by simp
  have s: "sorted ?ps" using ne by (intro sorted_percentiles) simp_all
  have c: "calibrate_scores raw_scores = Inr (calibrate_with ?ps raw_scores)"
    by (simp only: calibrate_scores_def p sum.case)
  from p l s c show ?thesis by blast
qed

subsection \<open>Degenerate populations\<close>

lemma percentile_at_constant:
  assumes "s \<noteq> []" "\<forall>x \<in> set s. x = c" "q \<le> 100"
  shows "percentile_at s q = c"
proof -
  let ?n = "length s" let ?lo = "(?n - 1) * q div 100"
  let ?hi = "min (?lo + 1) (?n - 1)"
  have n0: "0 < ?n" using assms(1) by simp
  have "?hi < ?n" using n0 by arith
  then have hi: "s ! ?hi = c" using assms(2) by simp
  have "?lo \<le> ?n - 1" by (rule scaled_index_le[OF assms(3)])
  then have "?lo < ?n" using n0 by arith
  then have lo: "s ! ?lo = c" using assms(2) by simp
  have "percentile_at s q = s ! ?lo + (s ! ?hi - s ! ?lo) * (real ((?n - 1) * q mod 100) / 100)"
    by (simp add: percentile_at_def Let_def)
  then show ?thesis by (simp only: hi lo) simp
qed

text \<open>
  C7. When all raw scores of a non-empty population are the same value, calibration
  does not fail: every account receives the same score 0, which lies in [0, 1000].
\<close>

theorem calibrate_scores_degenerate:
  assumes "raw_scores \<noteq> []" and "\<forall>x \<in> set raw_scores. x = c"
  shows "calibrate_scores raw_scores = Inr (replicate (length raw_scores) 0) \<and>
         (\<forall>y \<in> set (replicate (length raw_scores) (0::real)). 0 \<le> y \<and> y \<le> 1000)"
proof -
  let ?s = "sort raw_scores"
  have ne: "?s \<noteq> []" using assms(1) by (metis length_0_conv length_sort)
  have allc: "\<forall>x \<in> set ?s. x = c" using assms(2) by simp
  have "map (percentile_at ?s) [0..<101] = map (\<lambda>q. c) [0..<101]"
    by (rule map_cong[OF refl]) (simp add: percentile_at_constant[OF ne allc])
  also have "\<dots> = replicate 101 c" by (simp add: map_replicate_const del: upt_Suc)
  finally have ps: "map (percentile_at ?s) [0..<101] = replicate 101 c" .
  have z: "\<And>x. searchsorted (replicate 101 x) x = 0"
    by (simp add: searchsorted_def)
  have "map (\<lambda>score. clip (1000 * (real (searchsorted (replicate 101 c) score) / 100)) 0 1000)
          raw_scores = map (\<lambda>score. 0) raw_scores"
    using assms(2) by (intro map_cong[OF refl]) (simp add: z clip_def)
  then have "calibrate_scores raw_scores = Inr (replicate (length raw_scores) 0)"
    by (simp add: calibrate_scores_nonempty[OF assms(1)] ps map_replicate_const del: upt_Suc)
  then show ?thesis by simp
qed

lemma calibrate_scores_empty: "calibrate_scores [] = Inl IndexError"
  by (simp add: calibrate_scores_def calibrate_with_def np_percentile_def)

theorem calibrate_scores_degenerate_witness:
  "[7, 7, 7 :: real] \<noteq> [] \<and> list_all (\<lambda>x. x = 7) [7, 7, 7 :: real] \<and>
   calibrate_scores [7, 7, 7] = Inr [0, 0, 0]"
proof -
  have h1: "[7, 7, 7 :: real] \<noteq> []" by simp
  have h2: "\<forall>x \<in> set [7, 7, 7 :: real]. x = 7" by simp
  from calibrate_scores_degenerate[OF h1 h2] show ?thesis by simp
qed

lemma calibrate_scores_example: "calibrate_scores [3, 1, 2] = Inr [1000, 0, 500]"
  by code_simp

section \<open>The synthetic target generator\<close>

lemma spec_unit_share_range: "0 \<le> spec_unit_share cell d \<and> spec_unit_share cell d \<le> 1"
  by (simp add: spec_unit_share_def clip_def split: option.split fval.split)

lemma normalized_cell:
  assumes "0 < d"
  shows "np_clip (fval_div (fillna0 (case cell of None \<Rightarrow> NaN | Some v \<Rightarrow> v)) (Num d)) 0 1
           = Num (spec_unit_share cell d)"
  using assms by (simp add: spec_unit_share_def clip_def split: option.split fval.split)

lemma no_column_share:
  assumes "\<not> has_column df factor" "i < length df"
  shows "spec_unit_share (snd (df ! i) factor) d = 0"
proof -
  have "snd (df ! i) factor = None"
    using assms by (auto simp: has_column_def list_ex_iff)
  then show ?thesis by (simp add: spec_unit_share_def)
qed

lemma apply_factors_length:
  "length scores = length df \<Longrightarrow> length (apply_factors df fs scores) = length df"
  by (induction df fs scores rule: apply_factors.induct) (simp_all add: Let_def column_def)

lemma apply_factors_nth:
  assumes "length scores = length df" "i < length df" "scores ! i = Num s"
    and "\<forall>(factor, max_points, max_value) \<in> set fs. 0 < max_value"
  shows "apply_factors df fs scores ! i =
           Num (s + (\<Sum>(factor, max_points, max_value) \<leftarrow> fs.
                       max_points * spec_unit_share (snd (df ! i) factor) max_value))"
  using assms
proof (induction df fs scores arbitrary: s rule: apply_factors.induct)
  case (1 df scores)
  then show ?case by simp
next
  case (2 df factor max_points max_value fs scores)
  let ?step = "if has_column df factor then
          (let values = map fillna0 (column df factor);
               normalized = map (\<lambda>v. np_clip (fval_div v (Num max_value)) 0 1) values
           in map2 fval_add scores (map (\<lambda>x. fval_mul x (Num max_points)) normalized))
        else scores"
  let ?u = "spec_unit_share (snd (df ! i) factor) max_value"
  have mv: "0 < max_value" using "2.prems"(4) by simp
  have len: "length ?step = length df"
    using "2.prems"(1) by (simp add: Let_def column_def)
  have st: "?step ! i = Num (s + max_points * ?u)"
  proof (cases "has_column df factor")
    case True
    have "column df factor ! i = (case snd (df ! i) factor of None \<Rightarrow> NaN | Some v \<Rightarrow> v)"
      using "2.prems"(2) by (simp add: column_def)
    then have "np_clip (fval_div (fillna0 (column df factor ! i)) (Num max_value)) 0 1 = Num ?u"
      by (simp only: normalized_cell[OF mv])
    then show ?thesis
      using True "2.prems"(1,2,3) by (simp add: Let_def column_def mult.commute)
  next
    case False
    then show ?thesis
      using "2.prems"(2,3) no_column_share[OF False "2.prems"(2)] by simp
  qed
  have rest: "\<forall>(factor, max_points, max_value) \<in> set fs. 0 < max_value"
    using "2.prems"(4) by simp
  have "apply_factors df fs ?step ! i =
          Num ((s + max_points * ?u) + (\<Sum>(factor, max_points, max_value) \<leftarrow> fs.
                       max_points * spec_unit_share (snd (df ! i) factor) max_value))"
    by (rule "2.IH"[OF len "2.prems"(2) st rest])
  then show ?case by (simp add: add.assoc)
qed

lemma factor_scores_nth:
  assumes "i < length df"
  shows "factor_scores df ! i = Num (spec_factor_score (snd (df ! i)))"
proof -
  let ?init = "replicate (length df) (Num 500)"
  let ?pos = "apply_factors df positive_factors ?init"
  have l0: "length ?init = length df" by simp
  have i0: "?init ! i = Num 500" using assms by simp
  have p: "?pos ! i = Num (500 + (\<Sum>(factor, max_points, max_value) \<leftarrow> positive_factors.
                       max_points * spec_unit_share (snd (df ! i) factor) max_value))"
    by (rule apply_factors_nth[OF l0 assms i0]) (simp add: positive_factors_def)
  have lp: "length ?pos = length df" by (rule apply_factors_length[OF l0])
  have n: "apply_factors df negative_factors ?pos ! i =
             Num ((500 + (\<Sum>(factor, max_points, max_value) \<leftarrow> positive_factors.
                       max_points * spec_unit_share (snd (df ! i) factor) max_value))
                  + (\<Sum>(factor, max_points, max_value) \<leftarrow> negative_factors.
                       max_points * spec_unit_share (snd (df ! i) factor) max_value))"
    by (rule apply_factors_nth[OF lp assms p]) (simp add: negative_factors_def)
  show ?thesis
    unfolding factor_scores_def n
    by (simp add: positive_factors_def negative_factors_def spec_factor_score_def)
qed

lemma length_factor_scores: "length (factor_scores df) = length df"
  unfolding factor_scores_def by (intro apply_factors_length) simp

lemma spec_factor_score_range:
  "- 250 \<le> spec_factor_score row \<and> spec_factor_score row \<le> 1000"
proof -
  note r = spec_unit_share_range
  show ?thesis
    unfolding spec_factor_score_def
    using r[of "row ''repayment_ratio''" 1] r[of "row ''asset_diversity_score''" 1]
      r[of "row ''account_age_days''" 365] r[of "row ''transaction_complexity''" "1 / 2"]
      r[of "row ''liquidation_ratio''" "1 / 10"] r[of "row ''leverage_ratio''" 10]
      r[of "row ''time_regularity_score''" 5] r[of "row ''amount_uniformity_score''" "4 / 5"]
    by linarith
qed

text \<open>
  C10. For every features frame and every realisation of the noise, target
  generation returns one target per account, and the target of an account is the
  clipped sum of its factor score and its noise: the factor score starts at the
  baseline 500 and adds each positive factor's points (200, 100, 150, 50) and each
  negative factor's points (-300, -200, -100, -150) times the feature divided by its
  divisor and clipped to [0, 1]. The factor score is a finite number between -250 and
  1000, and after the noise is added the final clip puts every target in [0, 1000].
\<close>

theorem create_synthetic_targets_formula:
  "create_synthetic_targets df noise =
     Inr (map (\<lambda>i. Num (clip (spec_factor_score (snd (df ! i)) + noise i) 0 1000))
            [0..<length df]) \<and>
   factor_scores df = map (\<lambda>r. Num (spec_factor_score (snd r))) df \<and>
   spec_unit_share (Some (Num x)) d = clip (x / d) 0 1 \<and>
   0 \<le> spec_unit_share cell d \<and> spec_unit_share cell d \<le> 1 \<and>
   - 250 \<le> spec_factor_score row \<and> spec_factor_score row \<le> 1000 \<and>
   0 \<le> clip (spec_factor_score row + n) 0 1000 \<and>
   clip (spec_factor_score row + n) 0 1000 \<le> 1000"
proof -
  have fs: "factor_scores df = map (\<lambda>r. Num (spec_factor_score (snd r))) df"
    by (rule nth_equalityI) (simp_all add: length_factor_scores factor_scores_nth)
  have "map (\<lambda>s. np_clip s 0 1000)
          (map2 fval_add (map (\<lambda>r. Num (spec_factor_score (snd r))) df)
             (map (\<lambda>i. Num (noise i)) [0..<length df]))
        = map (\<lambda>i. Num (clip (spec_factor_score (snd (df ! i)) + noise i) 0 1000))
            [0..<length df]"
    by (rule nth_equalityI) simp_all
  then have c: "create_synthetic_targets df noise =
     Inr (map (\<lambda>i. Num (clip (spec_factor_score (snd (df ! i)) + noise i) 0 1000))
            [0..<length df])"
    by (simp add: create_synthetic_targets_def Let_def fs)
  have u: "spec_unit_share (Some (Num x)) d = clip (x / d) 0 1"
    by (simp add: spec_unit_share_def)
  have b: "0 \<le> clip (spec_factor_score row + n) 0 1000 \<and>
           clip (spec_factor_score row + n) 0 1000 \<le> 1000"
    by (simp add: clip_def)
  show ?thesis
    by (intro conjI c fs u conjunct1[OF spec_unit_share_range]
        conjunct2[OF spec_unit_share_range] conjunct1[OF spec_factor_score_range]
        conjunct2[OF spec_factor_score_range] conjunct1[OF b] conjunct2[OF b])
qed

theorem create_synthetic_targets_formula_witness:
  "create_synthetic_targets example_features_df example_noise = Inr [Num 760, Num 330] \<and>
   factor_scores example_features_df = [Num 730, Num 300]"
proof -
  note t = create_synthetic_targets_formula[of example_features_df example_noise]
  have a: "spec_factor_score (snd (example_features_df ! 0)) = 730"
    by (simp add: spec_factor_score_def spec_unit_share_def example_features_df_def clip_def)
  have b: "spec_factor_score (snd (example_features_df ! 1)) = 300"
    by (simp add: spec_factor_score_def spec_unit_share_def example_features_df_def clip_def)
  have b': "spec_factor_score (snd (example_features_df ! Suc 0)) = 300"
    using b by simp
  have l: "[0..<length example_features_df] = [0, 1]"
    by (simp add: example_features_df_def upt_conv_Cons)
  have 1: "create_synthetic_targets example_features_df example_noise = Inr [Num 760, Num 330]"
    using conjunct1[OF t] by (simp add: l a b' example_noise_def clip_def)
  have e: "example_features_df = [example_features_df ! 0, example_features_df ! 1]"
    by (simp add: example_features_df_def)
  have "map (\<lambda>r. Num (spec_factor_score (snd r))) example_features_df = [Num 730, Num 300]"
    by (subst e) (simp add: a b')
  then have 2: "factor_scores example_features_df = [Num 730, Num 300]"
    using conjunct1[OF conjunct2[OF t]] by simp
  show ?thesis by (intro conjI 1 2)
qed

lemma create_synthetic_targets_example:
  "create_synthetic_targets example_features_df example_noise = Inr [Num 760, Num 330]"
  by (simp add: create_synthetic_targets_def factor_scores_def positive_factors_def
      negative_factors_def example_features_df_def example_noise_def has_column_def
      column_def clip_def Let_def upt_conv_Cons)

section \<open>Empty populations\<close>

lemma factor_scores_empty: "factor_scores [] = []"
  by (simp add: factor_scores_def positive_factors_def negative_factors_def has_column_def)

text \<open>
  C8 as stated fails: on an empty population target generation raises nothing and
  returns the empty target list.
\<close>

theorem empty_population_counterexample:
  "\<not> (isl (calibrate_scores []) \<and> isl (create_synthetic_targets [] zero_noise))"
  by (simp add: create_synthetic_targets_def factor_scores_empty)

text \<open>
  C8, amended. On an empty population score calibration fails with an error (raised
  by the percentile computation), while synthetic target generation does not fail: for
  every noise it returns the empty target list.
\<close>

theorem empty_population_behaviour:
  "calibrate_scores [] = Inl IndexError \<and> create_synthetic_targets [] noise = Inr []"
  by (simp add: calibrate_scores_def calibrate_with_def np_percentile_def create_synthetic_targets_def
      factor_scores_empty)

section \<open>The feature extractor\<close>

subsection \<open>Keys and lookups\<close>

lemma dict_update_skip:
  assumes "k \<notin> set (map fst items)"
  shows "dict_update features items k = features k"
proof -
  have "map_of (rev items) k = None"
    using assms by (simp add: map_of_eq_None_iff)
  then show ?thesis by (simp add: dict_update_def map_add_def)
qed

lemma dict_update_hit:
  assumes "map_of (rev items) k = Some v"
  shows "dict_update features items k = Some v"
  using assms by (simp add: dict_update_def)

lemma basic_keys:
  "map fst (basic_transaction_features data) =
     [''total_transactions'', ''unique_days_active'',
      ''deposit_count'', ''deposit_ratio'', ''borrow_count'', ''borrow_ratio'',
      ''repay_count'', ''repay_ratio'', ''redeemunderlying_count'', ''redeemunderlying_ratio'',
      ''liquidationcall_count'', ''liquidationcall_ratio'',
      ''total_amount'', ''avg_amount'', ''median_amount'', ''std_amount'',
      ''min_amount'', ''max_amount'', ''amount_cv'']"
  by (simp add: basic_transaction_features_def action_names_def Let_def)

lemma behavioral_keys:
  "map fst (behavioral_pattern_features data) =
     [''avg_time_between_transactions'', ''std_time_between_transactions'',
      ''min_time_between_transactions'', ''max_time_between_transactions'',
      ''activity_consistency'', ''max_daily_transactions'', ''avg_daily_transactions'',
      ''activity_hours_spread'', ''most_active_hour'']"
  by (simp add: behavioral_pattern_features_def Let_def)

lemma risk_keys:
  "map fst (risk_assessment_features data) =
     [''liquidation_count'', ''liquidation_ratio'', ''days_since_last_liquidation'',
      ''total_borrowed'', ''total_repaid'', ''repayment_ratio'', ''outstanding_debt'',
      ''leverage_ratio'', ''deposit_to_borrow_ratio'']"
  by (simp add: risk_assessment_features_def Let_def)

lemma portfolio_keys:
  "map fst (portfolio_management_features data) =
     [''unique_assets'', ''asset_concentration'', ''asset_diversity_score'',
      ''position_changes'', ''deposit_withdrawal_ratio'']"
  by (simp add: portfolio_management_features_def Let_def)

lemma temporal_keys:
  "map fst (temporal_features now data) =
     [''account_age_days'', ''transactions_per_day'', ''days_since_last_activity'',
      ''weekly_activity_variance'', ''monthly_activity_variance'']"
  by (simp add: temporal_features_def Let_def)

lemma bot_keys:
  "map fst (bot_detection_features data) =
     [''time_regularity_score'', ''most_common_interval_ratio'',
      ''amount_uniformity_score'', ''gas_optimization_score'', ''transaction_complexity'']"
  by (simp add: bot_detection_features_def Let_def)

lemma map_of_rev_key:
  assumes "map_of (rev items) k = Some v"
  shows "k \<in> set (map fst items)"
proof -
  have "(k, v) \<in> set (rev items)" using assms by (rule map_of_SomeD)
  then show ?thesis by force
qed

lemma extract_lookup_basic:
  assumes "map_of (rev (basic_transaction_features data)) k = Some v"
  shows "extract_wallet_features now data k = Some v"
proof -
  have k: "k \<in> set (map fst (basic_transaction_features data))"
    using assms by (rule map_of_rev_key)
  have "k \<notin> set (map fst (behavioral_pattern_features data))"
    "k \<notin> set (map fst (risk_assessment_features data))"
    "k \<notin> set (map fst (portfolio_management_features data))"
    "k \<notin> set (map fst (temporal_features now data))"
    "k \<notin> set (map fst (bot_detection_features data))"
    using k unfolding basic_keys behavioral_keys risk_keys portfolio_keys temporal_keys bot_keys
    by auto
  then show ?thesis
    by (simp add: extract_wallet_features_def Let_def dict_update_skip
        dict_update_hit[OF assms])
qed

lemma extract_lookup_behavioral:
  assumes "map_of (rev (behavioral_pattern_features data)) k = Some v"
  shows "extract_wallet_features now data k = Some v"
proof -
  have k: "k \<in> set (map fst (behavioral_pattern_features data))"
    using assms by (rule map_of_rev_key)
  have "k \<notin> set (map fst (risk_assessment_features data))"
    "k \<notin> set (map fst (portfolio_management_features data))"
    "k \<notin> set (map fst (temporal_features now data))"
    "k \<notin> set (map fst (bot_detection_features data))"
    using k unfolding behavioral_keys risk_keys portfolio_keys temporal_keys bot_keys
    by auto
  then show ?thesis
    by (simp add: extract_wallet_features_def Let_def dict_update_skip
        dict_update_hit[OF assms])
qed

lemma extract_lookup_risk:
  assumes "map_of (rev (risk_assessment_features data)) k = Some v"
  shows "extract_wallet_features now data k = Some v"
proof -
  have k: "k \<in> set (map fst (risk_assessment_features data))"
    using assms by (rule map_of_rev_key)
  have "k \<notin> set (map fst (portfolio_management_features data))"
    "k \<notin> set (map fst (temporal_features now data))"
    "k \<notin> set (map fst (bot_detection_features data))"
    using k unfolding risk_keys portfolio_keys temporal_keys bot_keys
    by auto
  then show ?thesis
    by (simp add: extract_wallet_features_def Let_def dict_update_skip
        dict_update_hit[OF assms])
qed

lemma extract_lookup_bot:
  assumes "map_of (rev (bot_detection_features data)) k = Some v"
  shows "extract_wallet_features now data k = Some v"
  by (simp add: extract_wallet_features_def Let_def dict_update_hit[OF assms])

subsection \<open>Accounts without borrow events\<close>

text \<open>
  C6. For every event sequence without a borrow event the extracted repayment ratio
  is exactly 1 and the leverage ratio exactly 0, whatever deposits and repayments the
  sequence contains.
\<close>

theorem zero_borrow_ratios:
  assumes "\<forall>e \<in> set (rows data). action e \<noteq> ''borrow''"
  shows "extract_wallet_features now data ''repayment_ratio'' = Some (Num 1) \<and>
         extract_wallet_features now data ''leverage_ratio'' = Some (Num 0)"
proof -
  have b: "filter (\<lambda>e. action e = ''borrow'') (rows data) = []"
    using assms by (simp add: filter_empty_conv)
  have r: "map_of (rev (risk_assessment_features data)) ''repayment_ratio'' = Some (Num 1)"
    by (simp add: risk_assessment_features_def Let_def b)
  have l: "map_of (rev (risk_assessment_features data)) ''leverage_ratio'' = Some (Num 0)"
    by (simp add: risk_assessment_features_def Let_def b)
  show ?thesis
    using extract_lookup_risk[OF r] extract_lookup_risk[OF l] by simp
qed

theorem zero_borrow_ratios_witness:
  "list_all (\<lambda>e. action e \<noteq> ''borrow'') (rows example_deposit_repay) \<and>
   extract_wallet_features 0 example_deposit_repay ''repayment_ratio'' = Some (Num 1) \<and>
   extract_wallet_features 0 example_deposit_repay ''leverage_ratio'' = Some (Num 0)"
proof -
  have h: "\<forall>e \<in> set (rows example_deposit_repay). action e \<noteq> ''borrow''"
    by (simp add: example_deposit_repay_def)
  from zero_borrow_ratios[OF h, of 0] h show ?thesis by (simp add: list_all_iff)
qed

subsection \<open>Single-event accounts\<close>

lemma series_std_short: "length xs < 2 \<Longrightarrow> series_std xs = NaN"
  by (simp add: series_std_def series_var_def)

lemma single_event_std_amount:
  assumes "length (rows data) = 1"
  shows "extract_wallet_features now data ''std_amount'' = Some NaN"
proof -
  have "series_std (map amount (rows data)) = NaN"
    using assms by (intro series_std_short) simp
  then have "map_of (rev (basic_transaction_features data)) ''std_amount'' = Some NaN"
    by (simp add: basic_transaction_features_def action_names_def Let_def)
  then show ?thesis by (rule extract_lookup_basic)
qed

text \<open>
  C2 fails on the code. For the account with a single deposit the amount standard
  deviation is NaN (the sample deviation of one value), and so are the amount
  coefficient of variation and the activity consistency.
\<close>

theorem single_event_nan_features:
  "extract_wallet_features now example_single_event ''std_amount'' = Some NaN \<and>
   extract_wallet_features now example_single_event ''amount_cv'' = Some NaN \<and>
   extract_wallet_features now example_single_event ''activity_consistency'' = Some NaN"
proof -
  have s: "series_std [1000] = NaN" by (simp add: series_std_short)
  have a: "map_of (rev (basic_transaction_features example_single_event)) ''std_amount'' = Some NaN"
    by (simp add: basic_transaction_features_def action_names_def Let_def
        example_single_event_def s)
  have b: "map_of (rev (basic_transaction_features example_single_event)) ''amount_cv'' = Some NaN"
    by (simp add: basic_transaction_features_def action_names_def Let_def
        example_single_event_def s series_mean_def)
  have g: "groupby_size [date_of 0] = [1]"
    by (simp add: groupby_size_def)
  have s1: "series_std [1] = NaN" by (simp add: series_std_short)
  have c: "map_of (rev (behavioral_pattern_features example_single_event)) ''activity_consistency'' = Some NaN"
    by (simp add: behavioral_pattern_features_def Let_def example_single_event_def g s1)
  show ?thesis
    using extract_lookup_basic[OF a] extract_lookup_basic[OF b] extract_lookup_behavioral[OF c]
    by simp
qed

subsection \<open>Regularity score\<close>

lemma sorted_successive_le:
  assumes "sorted xs" "(a, b) \<in> set (zip xs (tl xs))"
  shows "a \<le> (b :: int)"
proof -
  from assms(2) obtain i where i: "i < length (tl xs)" "xs ! i = a" "tl xs ! i = b"
    by (auto simp: in_set_zip)
  have "tl xs ! i = xs ! Suc i" using i(1) by (simp add: nth_tl)
  moreover have "xs ! i \<le> xs ! Suc i"
    using assms(1) i(1) by (intro sorted_nth_mono) simp_all
  ultimately show ?thesis using i by simp
qed

lemma diff_total_seconds_nonneg:
  assumes "x \<in> set (diff_total_seconds rs)"
  shows "0 \<le> x"
proof -
  let ?ts = "sort (map timestamp rs)"
  from assms obtain a b where ab: "(a, b) \<in> set (zip ?ts (tl ?ts))"
    "x = real_of_int (b - a) / 1000000000"
    by (auto simp: diff_total_seconds_def Let_def)
  have "a \<le> b" using sorted_successive_le[OF _ ab(1)] by simp
  then show ?thesis using ab(2) by simp
qed

lemma length_diff_total_seconds: "length (diff_total_seconds rs) = length rs - 1"
  by (simp add: diff_total_seconds_def Let_def)

lemma time_regularity_spec:
  assumes "2 \<le> length gaps" "\<forall>x \<in> set gaps. 0 \<le> x"
  shows "time_regularity gaps = Num (spec_regularity_score gaps)"
proof -
  let ?m = "sum_list gaps / real (length gaps)"
  let ?v = "sum_list (map (\<lambda>x. (x - ?m)\<^sup>2) gaps) / real (length gaps - 1)"
  have ne: "gaps \<noteq> []" using assms(1) by auto
  have m0: "0 \<le> ?m" using assms(2) by (simp add: sum_list_nonneg)
  have v0: "0 \<le> ?v" by (intro divide_nonneg_nonneg sum_list_nonneg) auto
  have mean: "series_mean gaps = Num ?m" using ne by (simp add: series_mean_def)
  have std: "series_std gaps = Num (sqrt ?v)"
    using assms(1) by (simp add: series_std_def series_var_def Let_def)
  have q0: "0 \<le> sqrt ?v / ?m"
    by (rule divide_nonneg_nonneg[OF real_sqrt_ge_zero[OF v0] m0])
  have cve: "spec_coefficient_of_variation gaps = (if ?m = 0 then 0 else sqrt ?v / ?m)"
    by (simp only: spec_coefficient_of_variation_def Let_def)
  have cv0: "0 \<le> spec_coefficient_of_variation gaps"
  proof (cases "?m = 0")
    case True
    then show ?thesis unfolding cve by simp
  next
    case False
    then show ?thesis unfolding cve using q0 by simp
  qed
  have cv: "(if fval_gt0 (series_mean gaps)
             then fval_div (series_std gaps) (series_mean gaps) else Num 0)
            = Num (spec_coefficient_of_variation gaps)"
    using m0 by (simp add: mean std spec_coefficient_of_variation_def Let_def)
  have "spec_coefficient_of_variation gaps + 1 / 100 \<noteq> 0" using cv0 by simp
  then show ?thesis
    by (simp add: time_regularity_def cv spec_regularity_score_def del: One_nat_def)
qed

text \<open>
  C4, amended. For a sequence with at least 3 events the regularity score is
  1 / (coefficient of variation of the inter-event gaps + 0.01); for a sequence with
  fewer than 3 events it is 0.
\<close>

theorem time_regularity_score_three_events:
  "(length (rows data) > 2 \<longrightarrow>
      extract_wallet_features now data ''time_regularity_score'' =
        Some (Num (spec_regularity_score (diff_total_seconds (rows data))))) \<and>
   (length (rows data) < 3 \<longrightarrow>
      extract_wallet_features now data ''time_regularity_score'' = Some (Num 0))"
proof (intro conjI impI)
  assume l: "length (rows data) > 2"
  have "time_regularity (diff_total_seconds (rows data)) =
          Num (spec_regularity_score (diff_total_seconds (rows data)))"
    using l by (intro time_regularity_spec)
      (simp_all add: length_diff_total_seconds diff_total_seconds_nonneg)
  moreover have "diff_total_seconds (rows data) \<noteq> []"
    using l length_diff_total_seconds[of "rows data"] by auto
  ultimately have "map_of (rev (bot_detection_features data)) ''time_regularity_score'' =
          Some (Num (spec_regularity_score (diff_total_seconds (rows data))))"
    using l by (simp add: bot_detection_features_def Let_def)
  then show "extract_wallet_features now data ''time_regularity_score'' =
        Some (Num (spec_regularity_score (diff_total_seconds (rows data))))"
    by (rule extract_lookup_bot)
next
  assume l: "length (rows data) < 3"
  then have "map_of (rev (bot_detection_features data)) ''time_regularity_score'' = Some (Num 0)"
    by (simp add: bot_detection_features_def Let_def)
  then show "extract_wallet_features now data ''time_regularity_score'' = Some (Num 0)"
    by (rule extract_lookup_bot)
qed

lemma diff_total_seconds_two: "diff_total_seconds (rows example_two_events) = [86400]"
  by (simp add: diff_total_seconds_def example_two_events_def)

lemma diff_total_seconds_three:
  "diff_total_seconds (rows example_three_events) = [86400, 86400]"
  by (simp add: diff_total_seconds_def example_three_events_def)

lemma spec_regularity_score_three: "spec_regularity_score [86400, 86400] = 100"
  by (simp add: spec_regularity_score_def spec_coefficient_of_variation_def)

text \<open>
  C4 as stated fails for a sequence of exactly 2 events: the code returns 0, while
  the formula on the single gap is not 0 (the sample deviation of one gap is NaN).
\<close>

theorem time_regularity_two_events_counterexample:
  "length (rows example_two_events) \<ge> 2 \<and>
   extract_wallet_features 0 example_two_events ''time_regularity_score'' = Some (Num 0) \<and>
   time_regularity (diff_total_seconds (rows example_two_events)) = NaN"
proof -
  have l: "length (rows example_two_events) = 2" by (simp add: example_two_events_def)
  have "map_of (rev (bot_detection_features example_two_events)) ''time_regularity_score'' = Some (Num 0)"
    by (simp add: bot_detection_features_def Let_def l)
  then have a: "extract_wallet_features 0 example_two_events ''time_regularity_score'' = Some (Num 0)"
    by (rule extract_lookup_bot)
  have b: "time_regularity [86400] = NaN"
    by (simp add: time_regularity_def series_mean_def series_std_short)
  show ?thesis using l a b by (simp add: diff_total_seconds_two)
qed

theorem time_regularity_score_three_events_witness:
  "length (rows example_three_events) > 2 \<and>
   extract_wallet_features 0 example_three_events ''time_regularity_score'' = Some (Num 100) \<and>
   length (rows example_two_events) < 3 \<and>
   extract_wallet_features 0 example_two_events ''time_regularity_score'' = Some (Num 0)"
proof -
  have l3: "length (rows example_three_events) > 2" by (simp add: example_three_events_def)
  have l2: "length (rows example_two_events) < 3" by (simp add: example_two_events_def)
  from time_regularity_score_three_events[of example_three_events 0]
    time_regularity_score_three_events[of example_two_events 0] l3 l2
  show ?thesis
    by (simp add: diff_total_seconds_three spec_regularity_score_three)
qed

subsection \<open>The clock\<close>

lemma dict_update_cong_features:
  assumes "m1 k = m2 k"
  shows "dict_update m1 items k = dict_update m2 items k"
  using assms by (simp add: dict_update_def map_add_def split: option.split)

lemma dict_update_cong_items:
  assumes "map_of (rev items1) k = map_of (rev items2) k"
  shows "dict_update m items1 k = dict_update m items2 k"
  using assms by (simp add: dict_update_def map_add_def)

lemma temporal_features_other_keys:
  assumes "k \<noteq> ''days_since_last_activity''"
  shows "map_of (rev (temporal_features now1 data)) k = map_of (rev (temporal_features now2 data)) k"
  using assms by (simp add: temporal_features_def Let_def)

lemma temporal_features_same_day:
  assumes "timedelta_days (now1 - Max (set (map timestamp (rows data)))) =
           timedelta_days (now2 - Max (set (map timestamp (rows data))))"
  shows "temporal_features now1 data = temporal_features now2 data"
  using assms by (simp add: temporal_features_def Let_def)

subsection \<open>The key set\<close>

lemma dom_dict_update: "dom (dict_update features items) = dom features \<union> set (map fst items)"
  by (auto simp: dict_update_def dom_map_of_conv_image_fst)

lemma extract_wallet_features_dom:
  "dom (extract_wallet_features now data) =
     set (map fst (basic_transaction_features data @ behavioral_pattern_features data @
                   risk_assessment_features data @ portfolio_management_features data @
                   temporal_features now data @ bot_detection_features data))"
  unfolding extract_wallet_features_def Let_def dom_dict_update
  by (simp only: map_append set_append dom_empty Un_assoc Un_empty_left)

lemma all_group_keys:
  "map fst (basic_transaction_features data @ behavioral_pattern_features data @
            risk_assessment_features data @ portfolio_management_features data @
            temporal_features now data @ bot_detection_features data) = feature_keys"
  unfolding map_append basic_keys behavioral_keys risk_keys portfolio_keys temporal_keys
    bot_keys feature_keys_def
  by (simp only: append.simps)

lemma extract_wallet_features_keys:
  "dom (extract_wallet_features now data) = set feature_keys"
  by (simp only: extract_wallet_features_dom all_group_keys)

lemma extract_lookup_temporal:
  assumes "map_of (rev (temporal_features now data)) k = Some v"
  shows "extract_wallet_features now data k = Some v"
proof -
  have k: "k \<in> set (map fst (temporal_features now data))"
    using assms by (rule map_of_rev_key)
  have "k \<notin> set (map fst (bot_detection_features data))"
    using k unfolding temporal_keys bot_keys by auto
  then show ?thesis
    by (simp add: extract_wallet_features_def Let_def dict_update_skip
        dict_update_hit[OF assms])
qed

lemma last_timestamp_three:
  "Max (set (map timestamp (rows example_three_events))) = 172800000000000"
  by (simp add: example_three_events_def)

lemma days_since_last_activity_depends_on_clock:
  "extract_wallet_features 172800000000000 example_three_events ''days_since_last_activity''
     = Some (Num 0) \<and>
   extract_wallet_features 259200000000000 example_three_events ''days_since_last_activity''
     = Some (Num 1)"
proof -
  have ne: "rows example_three_events \<noteq> []" by (simp add: example_three_events_def)
  have a: "map_of (rev (temporal_features 172800000000000 example_three_events))
             ''days_since_last_activity'' = Some (Num 0)"
    by (simp add: temporal_features_def Let_def ne last_timestamp_three[unfolded set_map]
        timedelta_days_def ns_per_day_def)
  have b: "map_of (rev (temporal_features 259200000000000 example_three_events))
             ''days_since_last_activity'' = Some (Num 1)"
    by (simp add: temporal_features_def Let_def ne last_timestamp_three[unfolded set_map]
        timedelta_days_def ns_per_day_def)
  show ?thesis using extract_lookup_temporal[OF a] extract_lookup_temporal[OF b] by simp
qed

subsection \<open>Re-running the extractor\<close>

lemma days_since_last_activity_value:
  assumes "rows data \<noteq> []"
  shows "extract_wallet_features now data ''days_since_last_activity'' =
           Some (Num (real_of_int (timedelta_days
             (now - Max (set (map timestamp (rows data)))))))"
proof -
  have "map_of (rev (temporal_features now data)) ''days_since_last_activity'' =
           Some (Num (real_of_int (timedelta_days
             (now - Max (set (map timestamp (rows data)))))))"
    using assms by (simp add: temporal_features_def Let_def)
  then show ?thesis by (rule extract_lookup_temporal)
qed

text \<open>
  C3 as stated fails on the code, which reads the wall clock and has no parameter
  for the evaluation instant: two runs on the same three events, one when the clock
  reads the instant of the last event and one a day later, give different Feature
  Records.
\<close>

theorem extract_wallet_features_rerun_counterexample:
  "extract_wallet_features 172800000000000 example_three_events \<noteq>
   extract_wallet_features 259200000000000 example_three_events"
proof
  assume "extract_wallet_features 172800000000000 example_three_events =
          extract_wallet_features 259200000000000 example_three_events"
  then have "extract_wallet_features 172800000000000 example_three_events
               ''days_since_last_activity'' =
             extract_wallet_features 259200000000000 example_three_events
               ''days_since_last_activity''"
    by simp
  then show False
    using days_since_last_activity_depends_on_clock by simp
qed

text \<open>
  C3, amended. Two runs of the extractor on the same event sequence, during which
  the wall clock reads \<open>now1\<close> and \<open>now2\<close>, give the same value for every feature other
  than the days since the last activity. That feature is the number of whole days
  from the last event to the clock reading of the run, so for a non-empty sequence
  the two Feature Records are identical exactly when both clock readings lie the same
  number of whole days after the last event.
\<close>

theorem extract_wallet_features_clock:
  "(\<forall>k. k \<noteq> ''days_since_last_activity'' \<longrightarrow>
        extract_wallet_features now1 data k = extract_wallet_features now2 data k) \<and>
   (rows data \<noteq> [] \<longrightarrow>
      extract_wallet_features now1 data ''days_since_last_activity'' =
        Some (Num (real_of_int (timedelta_days
          (now1 - Max (set (map timestamp (rows data)))))))) \<and>
   (rows data \<noteq> [] \<longrightarrow>
      (extract_wallet_features now1 data = extract_wallet_features now2 data) =
      (timedelta_days (now1 - Max (set (map timestamp (rows data)))) =
       timedelta_days (now2 - Max (set (map timestamp (rows data))))))"
proof (intro conjI allI impI)
  fix k :: string
  assume "k \<noteq> ''days_since_last_activity''"
  then have "map_of (rev (temporal_features now1 data)) k =
             map_of (rev (temporal_features now2 data)) k"
    by (rule temporal_features_other_keys)
  then show "extract_wallet_features now1 data k = extract_wallet_features now2 data k"
    unfolding extract_wallet_features_def Let_def
    by (intro dict_update_cong_features dict_update_cong_items)
next
  assume "rows data \<noteq> []"
  then show "extract_wallet_features now1 data ''days_since_last_activity'' =
        Some (Num (real_of_int (timedelta_days
          (now1 - Max (set (map timestamp (rows data)))))))"
    by (rule days_since_last_activity_value)
next
  assume ne: "rows data \<noteq> []"
  let ?d1 = "timedelta_days (now1 - Max (set (map timestamp (rows data))))"
  let ?d2 = "timedelta_days (now2 - Max (set (map timestamp (rows data))))"
  show "(extract_wallet_features now1 data = extract_wallet_features now2 data) = (?d1 = ?d2)"
  proof
    assume "extract_wallet_features now1 data = extract_wallet_features now2 data"
    then have "extract_wallet_features now1 data ''days_since_last_activity'' =
               extract_wallet_features now2 data ''days_since_last_activity''"
      by simp
    then have "Some (Num (real_of_int ?d1)) = Some (Num (real_of_int ?d2))"
      by (simp only: days_since_last_activity_value[OF ne])
    then show "?d1 = ?d2" by simp
  next
    assume "?d1 = ?d2"
    then have "temporal_features now1 data = temporal_features now2 data"
      by (rule temporal_features_same_day)
    then show "extract_wallet_features now1 data = extract_wallet_features now2 data"
      by (simp add: extract_wallet_features_def)
  qed
qed

theorem extract_wallet_features_clock_witness:
  "''account_age_days'' \<noteq> ''days_since_last_activity'' \<and>
   extract_wallet_features 172800000000000 example_three_events ''account_age_days'' =
     extract_wallet_features 259200000000000 example_three_events ''account_age_days'' \<and>
   rows example_three_events \<noteq> [] \<and>
   extract_wallet_features 259200000000000 example_three_events ''days_since_last_activity'' =
     Some (Num 1) \<and>
   extract_wallet_features 172800000000000 example_three_events =
     extract_wallet_features 172800000000001 example_three_events"
proof -
  have k: "''account_age_days'' \<noteq> ''days_since_last_activity''" by simp
  have ne: "rows example_three_events \<noteq> []" by (simp add: example_three_events_def)
  note a = extract_wallet_features_clock[of 172800000000000 example_three_events 259200000000000]
  note b = extract_wallet_features_clock[of 259200000000000 example_three_events 0]
  note c = extract_wallet_features_clock[of 172800000000000 example_three_events 172800000000001]
  have 1: "extract_wallet_features 172800000000000 example_three_events ''account_age_days'' =
     extract_wallet_features 259200000000000 example_three_events ''account_age_days''"
    by (rule mp[OF spec[OF conjunct1[OF a]] k])
  have "extract_wallet_features 259200000000000 example_three_events ''days_since_last_activity'' =
     Some (Num (real_of_int (timedelta_days
          (259200000000000 - Max (set (map timestamp (rows example_three_events)))))))"
    by (rule mp[OF conjunct1[OF conjunct2[OF b]] ne])
  then have 2: "extract_wallet_features 259200000000000 example_three_events
      ''days_since_last_activity'' = Some (Num 1)"
    by (simp add: last_timestamp_three[unfolded set_map] timedelta_days_def ns_per_day_def)
  have d: "timedelta_days (172800000000000 - Max (set (map timestamp (rows example_three_events)))) =
     timedelta_days (172800000000001 - Max (set (map timestamp (rows example_three_events))))"
    by (simp add: last_timestamp_three[unfolded set_map] timedelta_days_def ns_per_day_def)
  have 3: "extract_wallet_features 172800000000000 example_three_events =
     extract_wallet_features 172800000000001 example_three_events"
    by (rule iffD2[OF mp[OF conjunct2[OF conjunct2[OF c]] ne] d])
  show ?thesis by (intro conjI k 1 ne 2 3)
qed

section \<open>Every account once\<close>

lemma distinct_unique: "distinct (unique xs)"
  by (simp add: unique_def)

lemma set_unique: "set (unique xs) = set xs"
  by (simp add: unique_def)

lemma engineer_features_wallets:
  "map fst (engineer_features clock df) = unique (map wallet_address (rows df))"
proof -
  have "map fst (engineer_features clock df) =
          map snd (enumerate 0 (unique (map wallet_address (rows df))))"
    by (simp add: engineer_features_def Let_def case_prod_beta comp_def)
  then show ?thesis by simp
qed

lemma score_wallets_nonempty:
  assumes "length (predict (map snd features_df)) = length features_df" "features_df \<noteq> []"
  shows "\<exists>calibrated_scores.
     calibrate_scores (predict (map snd features_df)) = Inr calibrated_scores \<and>
     length calibrated_scores = length features_df \<and>
     score_wallets predict features_df =
       Inr (sort_key (\<lambda>(w, credit_score, c). - credit_score)
             (map (\<lambda>(w, credit_score). (w, credit_score, assign_risk_category credit_score))
               (zip (map fst features_df) calibrated_scores)))"
proof -
  have ne: "predict (map snd features_df) \<noteq> []" using assms by auto
  from calibrate_scores_nonempty[OF ne] obtain cal where
    c: "calibrate_scores (predict (map snd features_df)) = Inr cal"
    and l: "length cal = length (predict (map snd features_df))"
    by simp
  have "score_wallets predict features_df =
       Inr (sort_key (\<lambda>(w, credit_score, c). - credit_score)
             (map (\<lambda>(w, credit_score). (w, credit_score, assign_risk_category credit_score))
               (zip (map fst features_df) cal)))"
    using l assms(1) by (simp add: score_wallets_def Let_def c)
  then show ?thesis using c l assms(1) by simp
qed

lemma scored_wallets_mset:
  assumes "length calibrated_scores = length wallet_addresses"
  shows "mset (map fst (sort_key (\<lambda>(w, credit_score, c). - credit_score)
             (map (\<lambda>(w, credit_score). (w, credit_score, assign_risk_category credit_score))
               (zip wallet_addresses calibrated_scores)))) = mset (wallet_addresses :: string list)"
proof -
  have "map fst (map (\<lambda>(w, credit_score). (w, credit_score, assign_risk_category credit_score))
               (zip wallet_addresses calibrated_scores)) = map fst (zip wallet_addresses calibrated_scores)"
    by (simp add: case_prod_beta comp_def)
  also have "\<dots> = wallet_addresses" using assms by simp
  finally have "mset (map fst (map (\<lambda>(w, credit_score). (w, credit_score, assign_risk_category credit_score))
               (zip wallet_addresses calibrated_scores))) = mset wallet_addresses" by simp
  then show ?thesis by (simp only: mset_map mset_sort)
qed

text \<open>
  C9. The Feature Extractor emits one Feature Record per distinct wallet address of
  the input: the addresses of its records are distinct and are exactly the addresses
  that occur. For a population of Feature Records on which the Learner returns one raw
  score per record, scoring fails only on the empty population and otherwise returns
  Score Records whose addresses are, with multiplicities, those of the input; with
  distinct input addresses every account is scored exactly once.
\<close>

theorem every_account_exactly_once:
  assumes "length (predict (map snd features_df)) = length features_df"
  shows "distinct (map fst (engineer_features clock df)) \<and>
         set (map fst (engineer_features clock df)) = set (map wallet_address (rows df)) \<and>
         (if features_df = [] then score_wallets predict features_df = Inl IndexError
          else \<exists>results. score_wallets predict features_df = Inr results \<and>
                 length results = length features_df \<and>
                 mset (map fst results) = mset (map fst features_df) \<and>
                 (distinct (map fst features_df) \<longrightarrow> distinct (map fst results)))"
proof -
  have a: "distinct (map fst (engineer_features clock df))"
    by (simp only: engineer_features_wallets distinct_unique)
  have b: "set (map fst (engineer_features clock df)) = set (map wallet_address (rows df))"
    by (simp only: engineer_features_wallets set_unique)
  have c: "if features_df = [] then score_wallets predict features_df = Inl IndexError
          else \<exists>results. score_wallets predict features_df = Inr results \<and>
                 length results = length features_df \<and>
                 mset (map fst results) = mset (map fst features_df) \<and>
                 (distinct (map fst features_df) \<longrightarrow> distinct (map fst results))"
  proof (cases "features_df = []")
    case True
    then have "predict (map snd features_df) = []" using assms by simp
    then show ?thesis using True by (simp add: score_wallets_def calibrate_scores_empty)
  next
    case False
    from score_wallets_nonempty[of predict features_df, OF assms False] obtain cal where
      l: "length cal = length features_df"
      and s: "score_wallets predict features_df =
       Inr (sort_key (\<lambda>(w, credit_score, c). - credit_score)
             (map (\<lambda>(w, credit_score). (w, credit_score, assign_risk_category credit_score))
               (zip (map fst features_df) cal)))" by blast
    let ?rs = "sort_key (\<lambda>(w, credit_score, c). - credit_score)
             (map (\<lambda>(w, credit_score). (w, credit_score, assign_risk_category credit_score))
               (zip (map fst features_df) cal))"
    have m: "mset (map fst ?rs) = mset (map fst features_df)"
      using l by (intro scored_wallets_mset) simp
    have len: "length ?rs = length features_df" using l by simp
    have d: "distinct (map fst features_df) \<longrightarrow> distinct (map fst ?rs)"
      using mset_eq_imp_distinct_iff[OF m] by (rule iffD2[THEN impI])
    have "\<exists>results. score_wallets predict features_df = Inr results \<and>
                 length results = length features_df \<and>
                 mset (map fst results) = mset (map fst features_df) \<and>
                 (distinct (map fst features_df) \<longrightarrow> distinct (map fst results))"
      by (rule exI[of _ ?rs]) (intro conjI s len m d)
    then show ?thesis by (simp only: False if_False)
  qed
  show ?thesis by (intro conjI a b c)
qed

theorem every_account_exactly_once_witness:
  "length (example_predict (map snd example_features_df)) = length example_features_df \<and>
   distinct (map fst (engineer_features example_clock example_three_events)) \<and>
   set (map fst (engineer_features example_clock example_three_events)) =
     set (map wallet_address (rows example_three_events)) \<and>
   (if example_features_df = []
    then score_wallets example_predict example_features_df = Inl IndexError
    else \<exists>results. score_wallets example_predict example_features_df = Inr results \<and>
           length results = length example_features_df \<and>
           mset (map fst results) = mset (map fst example_features_df) \<and>
           (distinct (map fst example_features_df) \<longrightarrow> distinct (map fst results)))"
proof -
  have h: "length (example_predict (map snd example_features_df)) = length example_features_df"
    by (simp add: example_predict_def)
  show ?thesis
    by (rule conjI[OF h every_account_exactly_once[of example_predict example_features_df, OF h]])
qed

lemma score_wallets_example:
  "score_wallets example_predict example_features_df =
     Inr [(''0xa'', 1000, ''Excellent''), (''0xb'', 0, ''Unacceptable'')]"
  by code_simp

lemma engineer_features_example:
  "map fst (engineer_features example_clock example_three_events) = [''0xa'']"
  by (simp add: engineer_features_wallets unique_def example_three_events_def)

end
